theory Spec2Isabelle
  imports Complex_Main
begin

section \<open>Python values, exceptions and effects\<close>

text \<open>
  The bot is Python code around three external systems (the exchange client, the chain
  client and the notifier).  Its functions are embedded as functions that return a result
  or an exception together with the list of effects they performed, in order.

  Python floats and Decimals are both modelled as exact reals: no rounding and no
  overflow.  The one non-number a float can be here, the NaN that numpy's mean of an
  empty list gives, is explicit in \<open>pyfloat\<close>.
\<close>

text \<open>
  The exceptions are those of class \<open>Exception\<close>, which \<open>except Exception\<close> catches.
  \<open>ClientError\<close> is any exception of an external call other than
  BinanceAPIException.  An interrupt or a cancellation of the task is not an error of
  the program and is not modelled.
\<close>

datatype exn =
    BinanceAPIException string
  | ClientError string
  | ZeroDivisionError
  | KeyError string
  | IndexError
  | TypeError
  | ValueError
  | InvalidOperation
  | StopIteration

text \<open>
  The values that the clients hand back and that the configuration holds.
  \<open>DecStr q\<close> is a string that is a decimal literal denoting \<open>q\<close> (as "12.50000000");
  \<open>Str s\<close> is any other string; \<open>Num q\<close> is a number; \<open>Nothing\<close> is None;
  \<open>Seq\<close> is a list and \<open>Dict\<close> a dictionary with string keys.
\<close>

datatype pyval =
    Str string
  | DecStr real
  | Num real
  | Nothing
  | Seq "pyval list"
  | Dict "(string \<times> pyval) list"

datatype pyfloat = Finite real | NaN

text \<open>What an external call answers: a value, a BinanceAPIException, or any other exception.\<close>

datatype reply = Returns pyval | RaisesApi string | RaisesOther string

datatype call =
    Get_asset_balance string
  | Get_klines string string int
  | Get_symbol_ticker string
  | Get_symbol_info string
  | Order_market_buy string real
  | Withdraw string pyval real string
  | Ronin_stake_axs real

datatype stage =
    Check_price_conditions
  | Execute_buy real
  | Transfer_to_ronin real
  | Stake_axs real

text \<open>The texts that are logged or sent, each with the values interpolated into it.\<close>

datatype message =
    Bot_gestartet
  | Bot_gestoppt
  | Fehler_Kontostand string exn
  | Fehler_Kline exn
  | Fehler_Preis exn
  | Fehler_RSI exn
  | Fehler_Kauforder exn
  | Fehler_Withdrawal exn
  | Kaufbedingungen_erfuellt real pyfloat
  | Fehler_Preisanalyse exn
  | Kauf_ausgefuehrt pyval real
  | Fehler_Kauf exn
  | Kaufversuch_fehlgeschlagen exn
  | Transfer_initiiert real
  | Fehler_Transfer exn
  | Transfer_fehlgeschlagen exn
  | Staking_erfolgreich real
  | Fehler_Staking exn
  | Staking_fehlgeschlagen exn
  | Fehler_Hauptloop exn
  | Fehler_aufgetreten exn

text \<open>
  The effects.  \<open>Call\<close> is a request to the exchange or the chain, with its arguments;
  \<open>Invoke\<close> marks the entry of a method of the controller, so that the order of the
  stages can be read off the effects.
\<close>

datatype event =
    Call call
  | Invoke stage
  | Log_info message
  | Log_error message
  | Send_message message
  | Sleep int

type_synonym 'a comp = "(exn + 'a) \<times> event list"

definition ret :: "'a \<Rightarrow> 'a comp" where
  "ret x = (Inr x, [])"

definition lift :: "exn + 'a \<Rightarrow> 'a comp" where
  "lift r = (r, [])"

definition emit :: "event \<Rightarrow> unit comp" where
  "emit ev = (Inr (), [ev])"

definition andthen :: "'a comp \<Rightarrow> ('a \<Rightarrow> 'b comp) \<Rightarrow> 'b comp" where
  "andthen m f =
     (case fst m of
        Inl e \<Rightarrow> (Inl e, snd m)
      | Inr x \<Rightarrow> (fst (f x), snd m @ snd (f x)))"

text \<open>\<open>try: m except Exception as e: h e\<close>\<close>

definition try_except :: "'a comp \<Rightarrow> (exn \<Rightarrow> 'a comp) \<Rightarrow> 'a comp" where
  "try_except m h =
     (case fst m of
        Inl e \<Rightarrow> (fst (h e), snd m @ snd (h e))
      | Inr x \<Rightarrow> (Inr x, snd m))"

text \<open>\<open>try: m except BinanceAPIException as e: h e\<close>: every other exception passes through.\<close>

definition try_except_api :: "'a comp \<Rightarrow> (exn \<Rightarrow> 'a comp) \<Rightarrow> 'a comp" where
  "try_except_api m h =
     (case fst m of
        Inl (BinanceAPIException s) \<Rightarrow>
          (fst (h (BinanceAPIException s)), snd m @ snd (h (BinanceAPIException s)))
      | _ \<Rightarrow> m)"

definition external :: "call \<Rightarrow> reply \<Rightarrow> pyval comp" where
  "external c r =
     (case r of
        Returns v \<Rightarrow> (Inr v, [Call c])
      | RaisesApi s \<Rightarrow> (Inl (BinanceAPIException s), [Call c])
      | RaisesOther s \<Rightarrow> (Inl (ClientError s), [Call c]))"

subsection \<open>Python operations that can raise\<close>

definition sum_bind :: "exn + 'a \<Rightarrow> ('a \<Rightarrow> exn + 'b) \<Rightarrow> exn + 'b" where
  "sum_bind r f = (case r of Inl e \<Rightarrow> Inl e | Inr x \<Rightarrow> f x)"

text \<open>\<open>v[k]\<close> for a string key.\<close>

fun subscript :: "pyval \<Rightarrow> string \<Rightarrow> exn + pyval" where
  "subscript (Dict d) k = (case map_of d k of None \<Rightarrow> Inl (KeyError k) | Some v \<Rightarrow> Inr v)"
| "subscript _ k = Inl TypeError"

text \<open>\<open>v[i]\<close> for a non-negative index.\<close>

fun py_index :: "pyval \<Rightarrow> nat \<Rightarrow> exn + pyval" where
  "py_index (Seq xs) i = (if i < length xs then Inr (xs ! i) else Inl IndexError)"
| "py_index _ i = Inl TypeError"

text \<open>
  \<open>for x in v\<close>, for a list.  Strings and dictionaries are iterable in Python too; a reply
  of such a shape where the client promises a list is treated as not iterable.
\<close>

fun py_iter :: "pyval \<Rightarrow> exn + pyval list" where
  "py_iter (Seq xs) = Inr xs"
| "py_iter _ = Inl TypeError"

fun py_float :: "pyval \<Rightarrow> exn + real" where
  "py_float (DecStr q) = Inr q"
| "py_float (Num q) = Inr q"
| "py_float (Str s) = Inl ValueError"
| "py_float _ = Inl TypeError"

fun py_Decimal :: "pyval \<Rightarrow> exn + real" where
  "py_Decimal (DecStr q) = Inr q"
| "py_Decimal (Num q) = Inr q"
| "py_Decimal (Str s) = Inl InvalidOperation"
| "py_Decimal _ = Inl TypeError"

text \<open>\<open>int(v)\<close>: a string must be an integer literal, a number is truncated towards zero.\<close>

fun py_int :: "pyval \<Rightarrow> exn + int" where
  "py_int (DecStr q) = (if q \<in> \<int> then Inr \<lfloor>q\<rfloor> else Inl ValueError)"
| "py_int (Num q) = Inr (if 0 \<le> q then \<lfloor>q\<rfloor> else \<lceil>q\<rceil>)"
| "py_int (Str s) = Inl ValueError"
| "py_int _ = Inl TypeError"

fun truthy :: "pyval \<Rightarrow> bool" where
  "truthy (Str s) = (s \<noteq> [])"
| "truthy (DecStr q) = True"
| "truthy (Num q) = (q \<noteq> 0)"
| "truthy Nothing = False"
| "truthy (Seq xs) = (xs \<noteq> [])"
| "truthy (Dict d) = (d \<noteq> [])"

text \<open>Division of Python floats.\<close>

definition py_div :: "real \<Rightarrow> real \<Rightarrow> exn + real" where
  "py_div a b = (if b = 0 then Inl ZeroDivisionError else Inr (a / b))"

text \<open>
  numpy: the mean of an empty list is NaN, NaN compares false with everything, and
  arithmetic with NaN is NaN.  A numpy division by zero does not raise; the branch is
  never reached below, since the divisors there are checked or at least one.
\<close>

definition np_mean :: "real list \<Rightarrow> pyfloat" where
  "np_mean xs = (if xs = [] then NaN else Finite (sum_list xs / real (length xs)))"

fun fl_is_zero :: "pyfloat \<Rightarrow> bool" where
  "fl_is_zero (Finite x) = (x = 0)"
| "fl_is_zero NaN = False"

fun fl_less :: "pyfloat \<Rightarrow> real \<Rightarrow> bool" where
  "fl_less (Finite x) y = (x < y)"
| "fl_less NaN y = False"

fun fl_div :: "pyfloat \<Rightarrow> pyfloat \<Rightarrow> pyfloat" where
  "fl_div (Finite a) (Finite b) = (if b = 0 then NaN else Finite (a / b))"
| "fl_div _ _ = NaN"

fun fl_add :: "pyfloat \<Rightarrow> pyfloat \<Rightarrow> pyfloat" where
  "fl_add (Finite a) (Finite b) = Finite (a + b)"
| "fl_add _ _ = NaN"

fun fl_sub :: "pyfloat \<Rightarrow> pyfloat \<Rightarrow> pyfloat" where
  "fl_sub (Finite a) (Finite b) = Finite (a - b)"
| "fl_sub _ _ = NaN"

section \<open>The exchange client (src/utils/binance.py)\<close>

text \<open>
  Each wrapper takes the reply of the exchange to the request it makes, so that two calls
  of one wrapper in one loop iteration can be answered differently.
\<close>

record candle =
  open_time :: pyval
  open_price :: real
  high_price :: real
  low_price :: real
  close_price :: real
  volume :: real
  close_time :: pyval

definition get_balance :: "reply \<Rightarrow> string \<Rightarrow> real comp" where
  "get_balance r asset =
     try_except_api
       (andthen (external (Get_asset_balance asset) r) (\<lambda>balance.
          lift (sum_bind (subscript balance ''free'') py_Decimal)))
       (\<lambda>e. andthen (emit (Log_error (Fehler_Kontostand asset e))) (\<lambda>_. ret 0))"

definition format_kline :: "pyval \<Rightarrow> exn + candle" where
  "format_kline k =
     sum_bind (py_index k 0) (\<lambda>k0.
     sum_bind (sum_bind (py_index k 1) py_float) (\<lambda>k1.
     sum_bind (sum_bind (py_index k 2) py_float) (\<lambda>k2.
     sum_bind (sum_bind (py_index k 3) py_float) (\<lambda>k3.
     sum_bind (sum_bind (py_index k 4) py_float) (\<lambda>k4.
     sum_bind (sum_bind (py_index k 5) py_float) (\<lambda>k5.
     sum_bind (py_index k 6) (\<lambda>k6.
       Inr \<lparr>open_time = k0, open_price = k1, high_price = k2, low_price = k3,
            close_price = k4, volume = k5, close_time = k6\<rparr>)))))))"

fun format_klines :: "pyval list \<Rightarrow> exn + candle list" where
  "format_klines [] = Inr []"
| "format_klines (k # ks) =
     sum_bind (format_kline k) (\<lambda>c.
     sum_bind (format_klines ks) (\<lambda>cs. Inr (c # cs)))"

definition get_klines :: "reply \<Rightarrow> string \<Rightarrow> string \<Rightarrow> int \<Rightarrow> candle list comp" where
  "get_klines r symbol interval limit =
     try_except_api
       (andthen (external (Get_klines symbol interval limit) r) (\<lambda>klines.
          lift (sum_bind (py_iter klines) format_klines)))
       (\<lambda>e. andthen (emit (Log_error (Fehler_Kline e))) (\<lambda>_. ret []))"

definition get_current_price :: "reply \<Rightarrow> string \<Rightarrow> real comp" where
  "get_current_price r symbol =
     try_except_api
       (andthen (external (Get_symbol_ticker symbol) r) (\<lambda>ticker.
          lift (sum_bind (subscript ticker ''price'') py_float)))
       (\<lambda>e. andthen (emit (Log_error (Fehler_Preis e))) (\<lambda>_. ret 0))"

text \<open>The close-to-close changes: \<open>klines[i] - klines[i-1]\<close> for \<open>i\<close> from 1.\<close>

fun changes_of :: "candle list \<Rightarrow> real list" where
  "changes_of (a # b # ks) = (close_price b - close_price a) # changes_of (b # ks)"
| "changes_of _ = []"

text \<open>The body of \<open>calculate_rsi\<close> after the fetch.\<close>

definition rsi_of_klines :: "candle list \<Rightarrow> pyfloat" where
  "rsi_of_klines klines =
     (if klines = [] then Finite 0
      else
        let changes = changes_of klines;
            gains = map (\<lambda>change. if change > 0 then change else 0) changes;
            losses = map (\<lambda>change. if change < 0 then - change else 0) changes;
            avg_gain = np_mean gains;
            avg_loss = np_mean losses
        in if fl_is_zero avg_loss then Finite 100
           else
             let rs = fl_div avg_gain avg_loss
             in fl_sub (Finite 100) (fl_div (Finite 100) (fl_add (Finite 1) rs)))"

definition calculate_rsi :: "reply \<Rightarrow> string \<Rightarrow> int \<Rightarrow> pyfloat comp" where
  "calculate_rsi r symbol period =
     try_except
       (andthen (get_klines r symbol ''1h'' (period + 1)) (\<lambda>klines.
          ret (rsi_of_klines klines)))
       (\<lambda>e. andthen (emit (Log_error (Fehler_RSI e))) (\<lambda>_. ret (Finite 0)))"

text \<open>
  What the exchange and the chain answer during one iteration of the poll loop, one field
  for each request the iteration can make.

  \<open>quantize\<close> stands for \<open>float(Decimal(str(quantity)).quantize(step_size))\<close>: the
  result depends on the exponent of the step size as it is written, which the values here
  do not carry.  It gives the rounded quantity, or nothing where the library raises
  InvalidOperation.
\<close>

record world =
  balance_reply :: reply
  klines_signal :: reply
  ticker_signal :: reply
  klines_rsi :: reply
  ticker_buy :: reply
  symbol_info :: reply
  quantize :: "real \<Rightarrow> real \<Rightarrow> real option"
  order_reply :: reply
  withdraw_reply :: reply
  stake_reply :: reply

text \<open>\<open>next(f for f in filters if f['filterType'] == 'LOT_SIZE')\<close>\<close>

fun next_lot_size :: "pyval list \<Rightarrow> exn + pyval" where
  "next_lot_size [] = Inl StopIteration"
| "next_lot_size (f # fs) =
     sum_bind (subscript f ''filterType'') (\<lambda>t.
       if t = Str ''LOT_SIZE'' then Inr f else next_lot_size fs)"

definition place_market_buy :: "world \<Rightarrow> string \<Rightarrow> real \<Rightarrow> pyval comp" where
  "place_market_buy w symbol usdt_amount =
     try_except_api
       (andthen (get_current_price (ticker_buy w) symbol) (\<lambda>price.
          if price = 0 then ret Nothing
          else
            andthen (lift (py_div usdt_amount price)) (\<lambda>quantity.
            andthen (external (Get_symbol_info symbol) (symbol_info w)) (\<lambda>info.
            andthen (lift (sum_bind (sum_bind (subscript info ''filters'') py_iter) next_lot_size))
              (\<lambda>lot_size.
            andthen (lift (sum_bind (subscript lot_size ''stepSize'') py_Decimal)) (\<lambda>step_size.
            andthen (lift (case quantize w quantity step_size of
                             None \<Rightarrow> Inl InvalidOperation | Some q \<Rightarrow> Inr q)) (\<lambda>quantity.
              external (Order_market_buy symbol quantity) (order_reply w))))))))
       (\<lambda>e. andthen (emit (Log_error (Fehler_Kauforder e))) (\<lambda>_. ret Nothing))"

definition withdraw_to_ronin :: "reply \<Rightarrow> real \<Rightarrow> pyval \<Rightarrow> pyval comp" where
  "withdraw_to_ronin r amount address =
     try_except_api
       (external (Withdraw ''AXS'' address amount ''Ronin'') r)
       (\<lambda>e. andthen (emit (Log_error (Fehler_Withdrawal e))) (\<lambda>_. ret Nothing))"

section \<open>The controller (src/bot.py)\<close>

text \<open>
  The bot: its run flag, whether a notifier was constructed (\<open>self.telegram\<close> is not None),
  and the configuration, a dictionary of sections that are dictionaries of strings.
\<close>

record bot =
  running :: bool
  telegram :: bool
  config :: pyval

definition config_get :: "bot \<Rightarrow> string \<Rightarrow> string \<Rightarrow> exn + pyval" where
  "config_get b section' option' =
     sum_bind (subscript (config b) section') (\<lambda>s. subscript s option')"

text \<open>
  Modelled from the spec: \<open>TelegramNotifier.send_message\<close> (src/utils/telegram.py is
  not among the sources).  The spec's notifier interface is \<open>send(text) -> void\<close>,
  best-effort, errors swallowed: sending a message is an effect that never raises.
  The guard is the source's \<open>if self.telegram:\<close>.
\<close>

definition notify :: "bot \<Rightarrow> message \<Rightarrow> unit comp" where
  "notify b m = (if telegram b then emit (Send_message m) else ret ())"

text \<open>
  Modelled from the spec: \<open>RoninClient.stake_axs\<close> (src/utils/ronin.py ends before
  it).  The spec's chain client interface is \<open>stake(amount) -> transactionId | none\<close>;
  here it is an external call whose answer the world gives: an identifier, None, or
  an exception.
\<close>

definition ronin_stake_axs :: "reply \<Rightarrow> real \<Rightarrow> pyval comp" where
  "ronin_stake_axs r amount = external (Ronin_stake_axs amount) r"

definition check_price_conditions :: "world \<Rightarrow> bool comp" where
  "check_price_conditions w =
     andthen (emit (Invoke Check_price_conditions)) (\<lambda>_.
     try_except
       (andthen (get_klines (klines_signal w) ''AXSUSDT'' ''1h'' 24) (\<lambda>klines.
        andthen (get_current_price (ticker_signal w) ''AXSUSDT'') (\<lambda>current_price.
        let prices = map close_price klines in
        andthen (lift (py_div (sum_list prices) (real (length prices)))) (\<lambda>avg_price.
        andthen (calculate_rsi (klines_rsi w) ''AXSUSDT'' 14) (\<lambda>rsi.
        let price_condition = (current_price < avg_price * 0.95);
            rsi_condition = fl_less rsi 30
        in if price_condition \<and> rsi_condition
           then andthen (emit (Log_info (Kaufbedingungen_erfuellt current_price rsi)))
                  (\<lambda>_. ret True)
           else ret False)))))
       (\<lambda>e. andthen (emit (Log_error (Fehler_Preisanalyse e))) (\<lambda>_. ret False)))"

text \<open>The \<open>try\<close> block of \<open>execute_buy\<close>.\<close>

definition execute_buy_try :: "bot \<Rightarrow> world \<Rightarrow> real \<Rightarrow> pyval comp" where
  "execute_buy_try b w usdt_amount =
     andthen (place_market_buy w ''AXSUSDT'' usdt_amount) (\<lambda>order.
     andthen (lift (if truthy order
                    then sum_bind (subscript order ''status'') (\<lambda>s. Inr (s = Str ''FILLED''))
                    else Inr False)) (\<lambda>filled.
     if filled
     then andthen (lift (subscript order ''executedQty'')) (\<lambda>qty.
          andthen (emit (Log_info (Kauf_ausgefuehrt qty usdt_amount))) (\<lambda>_.
          andthen (notify b (Kauf_ausgefuehrt qty usdt_amount)) (\<lambda>_.
          ret order)))
     else ret Nothing))"

definition execute_buy :: "bot \<Rightarrow> world \<Rightarrow> real \<Rightarrow> pyval comp" where
  "execute_buy b w usdt_amount =
     andthen (emit (Invoke (Execute_buy usdt_amount))) (\<lambda>_.
     try_except (execute_buy_try b w usdt_amount)
       (\<lambda>e. andthen (emit (Log_error (Fehler_Kauf e))) (\<lambda>_.
            andthen (notify b (Kaufversuch_fehlgeschlagen e)) (\<lambda>_.
            ret Nothing))))"

definition transfer_to_ronin :: "bot \<Rightarrow> world \<Rightarrow> real \<Rightarrow> pyval comp" where
  "transfer_to_ronin b w amount =
     andthen (emit (Invoke (Transfer_to_ronin amount))) (\<lambda>_.
     try_except
       (andthen (lift (config_get b ''RONIN'' ''wallet_address'')) (\<lambda>address.
        andthen (withdraw_to_ronin (withdraw_reply w) amount address) (\<lambda>withdrawal.
        if truthy withdrawal
        then andthen (emit (Log_info (Transfer_initiiert amount))) (\<lambda>_.
             andthen (notify b (Transfer_initiiert amount)) (\<lambda>_.
             lift (subscript withdrawal ''id'')))
        else ret Nothing)))
       (\<lambda>e. andthen (emit (Log_error (Fehler_Transfer e))) (\<lambda>_.
            andthen (notify b (Transfer_fehlgeschlagen e)) (\<lambda>_.
            ret Nothing))))"

definition stake_axs :: "bot \<Rightarrow> world \<Rightarrow> real \<Rightarrow> pyval comp" where
  "stake_axs b w amount =
     andthen (emit (Invoke (Stake_axs amount))) (\<lambda>_.
     try_except
       (andthen (ronin_stake_axs (stake_reply w) amount) (\<lambda>tx_hash.
        if truthy tx_hash
        then andthen (emit (Log_info (Staking_erfolgreich amount))) (\<lambda>_.
             andthen (notify b (Staking_erfolgreich amount)) (\<lambda>_.
             ret tx_hash))
        else ret Nothing))
       (\<lambda>e. andthen (emit (Log_error (Fehler_Staking e))) (\<lambda>_.
            andthen (notify b (Staking_fehlgeschlagen e)) (\<lambda>_.
            ret Nothing))))"

text \<open>The three stages, as the loop body nests them under a true decision.\<close>

definition pipeline :: "bot \<Rightarrow> world \<Rightarrow> real \<Rightarrow> unit comp" where
  "pipeline b w usdt_amount =
     andthen (execute_buy b w usdt_amount) (\<lambda>order.
     if truthy order
     then andthen (emit (Sleep 10)) (\<lambda>_.
          andthen (lift (sum_bind (subscript order ''executedQty'') py_Decimal)) (\<lambda>amount.
          andthen (transfer_to_ronin b w amount) (\<lambda>tx_hash.
          if truthy tx_hash
          then andthen (emit (Sleep 900)) (\<lambda>_.
               andthen (lift (sum_bind (subscript order ''executedQty'') py_Decimal)) (\<lambda>amount'.
               andthen (stake_axs b w amount') (\<lambda>_. ret ())))
          else ret ())))
     else ret ())"

text \<open>The \<open>try\<close> block of one iteration of the loop in \<open>run\<close>.\<close>

definition loop_try :: "bot \<Rightarrow> world \<Rightarrow> unit comp" where
  "loop_try b w =
     andthen (get_balance (balance_reply w) ''USDT'') (\<lambda>usdt_balance.
     andthen (lift (sum_bind (config_get b ''BOT_SETTINGS'' ''usdt_amount'') py_Decimal))
       (\<lambda>usdt_amount.
     andthen (if usdt_balance \<ge> usdt_amount
              then andthen (check_price_conditions w) (\<lambda>signal.
                   if signal then pipeline b w usdt_amount else ret ())
              else ret ()) (\<lambda>_.
     andthen (lift (sum_bind (config_get b ''BOT_SETTINGS'' ''check_interval'') py_int))
       (\<lambda>interval. emit (Sleep interval)))))"

text \<open>One iteration: the \<open>try\<close> block and the handler of the loop.\<close>

definition loop_body :: "bot \<Rightarrow> world \<Rightarrow> unit comp" where
  "loop_body b w =
     try_except (loop_try b w)
       (\<lambda>e. andthen (emit (Log_error (Fehler_Hauptloop e))) (\<lambda>_.
            andthen (notify b (Fehler_aufgetreten e)) (\<lambda>_.
            emit (Sleep 60))))"

definition stop :: "bot \<Rightarrow> bot \<times> event list" where
  "stop b =
     (b\<lparr>running := False\<rparr>,
      Log_info Bot_gestoppt # snd (notify b Bot_gestoppt))"

text \<open>
  The loop of \<open>run\<close>.  The list gives, for each iteration that can happen, the world
  during it and whether \<open>stop\<close> is called on the bot while the iteration is suspended
  in one of its awaits; the effects of that call are placed after those of the iteration.
  The result is the bot at the end, the effects, the number of iterations entered, and
  the exception that left the loop, if one did.  An empty list with the flag still set
  means that the loop goes on.
\<close>

fun poll_loop :: "bot \<Rightarrow> (world \<times> bool) list \<Rightarrow> bot \<times> event list \<times> nat \<times> exn option" where
  "poll_loop b [] = (b, [], 0, None)"
| "poll_loop b ((w, stop_called) # ws) =
     (if running b
      then (case loop_body b w of
              (Inl e, t) \<Rightarrow> (b, t, 1, Some e)
            | (Inr _, t) \<Rightarrow>
                (let (b1, t1) = (if stop_called then stop b else (b, []));
                     (b2, t2, n, x) = poll_loop b1 ws
                 in (b2, t @ t1 @ t2, Suc n, x)))
      else (b, [], 0, None))"

definition run :: "bot \<Rightarrow> (world \<times> bool) list \<Rightarrow> bot \<times> event list \<times> nat \<times> exn option" where
  "run b ws =
     (let b0 = b\<lparr>running := True\<rparr>;
          t0 = Log_info Bot_gestartet # snd (notify b0 Bot_gestartet);
          (b', t, n, x) = poll_loop b0 ws
      in (b', t0 @ t, n, x))"

section \<open>Observations on the effects\<close>

text \<open>The stage a controller method records when it is entered.\<close>

fun invoked :: "event \<Rightarrow> stage list" where
  "invoked (Invoke s) = [s]"
| "invoked _ = []"

definition invocations :: "event list \<Rightarrow> stage list" where
  "invocations t = concat (map invoked t)"

fun sent :: "event \<Rightarrow> message list" where
  "sent (Send_message m) = [m]"
| "sent _ = []"

definition notifications :: "event list \<Rightarrow> message list" where
  "notifications t = concat (map sent t)"

fun logged :: "event \<Rightarrow> message list" where
  "logged (Log_info m) = [m]"
| "logged (Log_error m) = [m]"
| "logged _ = []"

definition logs :: "event list \<Rightarrow> message list" where
  "logs t = concat (map logged t)"

text \<open>
  A computation that enters no controller method, one that sends no message, and one
  that does not raise.
\<close>

definition quiet :: "'a comp \<Rightarrow> bool" where
  "quiet m = (invocations (snd m) = [])"

definition mute :: "'a comp \<Rightarrow> bool" where
  "mute m = (notifications (snd m) = [])"

definition returns :: "'a comp \<Rightarrow> bool" where
  "returns m = (case fst m of Inl e \<Rightarrow> False | Inr x \<Rightarrow> True)"

text \<open>The stages that follow the buy stage in one pipeline run, given what the buy returned.\<close>

definition stages_after_buy :: "bot \<Rightarrow> world \<Rightarrow> pyval \<Rightarrow> stage list" where
  "stages_after_buy b w order =
     (if truthy order
      then (case sum_bind (subscript order ''executedQty'') py_Decimal of
              Inl e \<Rightarrow> []
            | Inr amount \<Rightarrow>
                Transfer_to_ronin amount #
                (case fst (transfer_to_ronin b w amount) of
                   Inl e \<Rightarrow> []
                 | Inr tx_hash \<Rightarrow> if truthy tx_hash then [Stake_axs amount] else []))
      else [])"

section \<open>Concrete bots and worlds\<close>

definition kline_row :: "real \<Rightarrow> pyval" where
  "kline_row c = Seq [Num 0, DecStr c, DecStr c, DecStr c, DecStr c, DecStr 1, Num 0]"

definition ticker :: "real \<Rightarrow> pyval" where
  "ticker p = Dict [(''symbol'', Str ''AXSUSDT''), (''price'', DecStr p)]"

definition flat_24 :: pyval where
  "flat_24 = Seq (map kline_row (replicate 24 100))"

definition falling_15 :: pyval where
  "falling_15 =
     Seq (map kline_row [104, 103, 102, 101, 100, 99, 98, 97, 96, 95, 94, 93, 92, 91, 90])"

definition rising_15 :: pyval where
  "rising_15 =
     Seq (map kline_row [90, 91, 92, 93, 94, 95, 96, 97, 98, 99, 100, 101, 102, 103, 104])"

definition candle_at :: "real \<Rightarrow> candle" where
  "candle_at c =
     \<lparr>open_time = Num 0, open_price = c, high_price = c, low_price = c,
      close_price = c, volume = 1, close_time = Num 0\<rparr>"

definition demo_bot :: bot where
  "demo_bot =
     \<lparr>running = True, telegram = True,
      config = Dict [(''BOT_SETTINGS'',
                        Dict [(''usdt_amount'', DecStr 50), (''check_interval'', DecStr 300)]),
                     (''RONIN'', Dict [(''wallet_address'', Str ''ronin:abc'')])]\<rparr>"

definition demo_order :: pyval where
  "demo_order = Dict [(''status'', Str ''FILLED''), (''executedQty'', DecStr (1 / 2))]"

definition expired_order :: pyval where
  "expired_order = Dict [(''status'', Str ''EXPIRED''), (''executedQty'', DecStr 0)]"

text \<open>Every request is answered, the price is 10% under the mean and the series falls.\<close>

definition demo_world :: world where
  "demo_world =
     \<lparr>balance_reply = Returns (Dict [(''asset'', Str ''USDT''), (''free'', DecStr 80)]),
      klines_signal = Returns flat_24,
      ticker_signal = Returns (ticker 90),
      klines_rsi = Returns falling_15,
      ticker_buy = Returns (ticker 90),
      symbol_info = Returns (Dict [(''filters'',
                       Seq [Dict [(''filterType'', Str ''LOT_SIZE''),
                                  (''stepSize'', DecStr (1 / 100))]])]),
      quantize = (\<lambda>q s. Some q),
      order_reply = Returns demo_order,
      withdraw_reply = Returns (Dict [(''id'', Str ''w1'')]),
      stake_reply = Returns (Str ''0xabc'')\<rparr>"

text \<open>The candles arrive; the ticker request and the candle request of the oscillator fail.\<close>

definition failing_fetch_world :: world where
  "failing_fetch_world =
     demo_world\<lparr>ticker_signal := RaisesApi ''-1003'', klines_rsi := RaisesApi ''-1003''\<rparr>"

text \<open>The order comes back, but expired instead of filled.\<close>

definition expired_order_world :: world where
  "expired_order_world =
     demo_world\<lparr>order_reply := Returns expired_order\<rparr>"

text \<open>The balance request fails.\<close>

definition no_balance_world :: world where
  "no_balance_world = demo_world\<lparr>balance_reply := RaisesApi ''-1003''\<rparr>"

text \<open>The configured interval is not a number: the loop body raises at its last step.\<close>

definition broken_bot :: bot where
  "broken_bot =
     demo_bot\<lparr>config := Dict [(''BOT_SETTINGS'', Dict [(''usdt_amount'', DecStr 500)])]\<rparr>"

section \<open>Laws of the combinators\<close>

lemma fst_ret [simp]: "fst (ret x) = Inr x"
  by (simp add: ret_def)

lemma snd_ret [simp]: "snd (ret x) = []"
  by (simp add: ret_def)

lemma fst_lift [simp]: "fst (lift r) = r"
  by (simp add: lift_def)

lemma snd_lift [simp]: "snd (lift r) = []"
  by (simp add: lift_def)

lemma fst_emit [simp]: "fst (emit ev) = Inr ()"
  by (simp add: emit_def)

lemma snd_emit [simp]: "snd (emit ev) = [ev]"
  by (simp add: emit_def)

lemma fst_andthen:
  "fst (andthen m f) = (case fst m of Inl e \<Rightarrow> Inl e | Inr x \<Rightarrow> fst (f x))"
  by (simp add: andthen_def split: sum.splits)

lemma snd_andthen:
  "snd (andthen m f) = snd m @ (case fst m of Inl e \<Rightarrow> [] | Inr x \<Rightarrow> snd (f x))"
  by (simp add: andthen_def split: sum.splits)

lemma fst_try_except:
  "fst (try_except m h) = (case fst m of Inl e \<Rightarrow> fst (h e) | Inr x \<Rightarrow> Inr x)"
  by (simp add: try_except_def split: sum.splits)

lemma snd_try_except:
  "snd (try_except m h) = snd m @ (case fst m of Inl e \<Rightarrow> snd (h e) | Inr x \<Rightarrow> [])"
  by (simp add: try_except_def split: sum.splits)

lemma andthen_emit [simp]: "andthen (emit ev) f = (fst (f ()), ev # snd (f ()))"
  by (simp add: andthen_def emit_def)

lemma andthen_ret [simp]: "andthen (ret x) f = f x"
  by (simp add: andthen_def ret_def)

lemma andthen_lift_Inr [simp]: "andthen (lift (Inr x)) f = f x"
  by (simp add: andthen_def lift_def)

lemma andthen_lift_Inl [simp]: "andthen (lift (Inl e)) f = (Inl e, [])"
  by (simp add: andthen_def lift_def)

lemma andthen_Inr: "fst m = Inr x \<Longrightarrow> andthen m f = (fst (f x), snd m @ snd (f x))"
  by (simp add: andthen_def)

lemma andthen_Inl: "fst m = Inl e \<Longrightarrow> andthen m f = (Inl e, snd m)"
  by (simp add: andthen_def)

lemma try_except_Inr: "fst m = Inr x \<Longrightarrow> try_except m h = (Inr x, snd m)"
  by (simp add: try_except_def)

lemma try_except_Inl: "fst m = Inl e \<Longrightarrow> try_except m h = (fst (h e), snd m @ snd (h e))"
  by (simp add: try_except_def)

subsection \<open>Computations that enter no stage\<close>

lemma invocations_simps [simp]:
  "invocations [] = []"
  "invocations (ev # t) = invoked ev @ invocations t"
  "invocations (t @ t') = invocations t @ invocations t'"
  by (simp_all add: invocations_def)

lemma quiet_ret [intro!, simp]: "quiet (ret x)"
  by (simp add: quiet_def)

lemma quiet_lift [intro!, simp]: "quiet (lift r)"
  by (simp add: quiet_def)

lemma quiet_emit [intro!]: "invoked ev = [] \<Longrightarrow> quiet (emit ev)"
  by (simp add: quiet_def)

lemma quiet_external [intro!, simp]: "quiet (external c r)"
  by (simp add: quiet_def external_def split: reply.splits)

lemma quiet_andthen [intro!]: "quiet m \<Longrightarrow> (\<And>x. quiet (f x)) \<Longrightarrow> quiet (andthen m f)"
  by (simp add: quiet_def snd_andthen split: sum.splits)

lemma quiet_try_except [intro!]: "quiet m \<Longrightarrow> (\<And>e. quiet (h e)) \<Longrightarrow> quiet (try_except m h)"
  by (simp add: quiet_def snd_try_except split: sum.splits)

lemma quiet_try_except_api [intro!]:
  "quiet m \<Longrightarrow> (\<And>e. quiet (h e)) \<Longrightarrow> quiet (try_except_api m h)"
  by (simp add: quiet_def try_except_api_def split: sum.splits exn.splits)

lemma quiet_if [intro!]: "(c \<Longrightarrow> quiet m) \<Longrightarrow> (\<not> c \<Longrightarrow> quiet m') \<Longrightarrow> quiet (if c then m else m')"
  by simp

lemma quiet_notify [intro!, simp]: "quiet (notify b m)"
  by (simp add: notify_def quiet_def)

lemma quiet_get_balance [intro!, simp]: "quiet (get_balance r asset)"
  unfolding get_balance_def by (intro quiet_try_except_api quiet_andthen quiet_emit) simp_all

lemma quiet_get_klines [intro!, simp]: "quiet (get_klines r s i l)"
  unfolding get_klines_def by (intro quiet_try_except_api quiet_andthen quiet_emit) simp_all

lemma quiet_get_current_price [intro!, simp]: "quiet (get_current_price r s)"
  unfolding get_current_price_def by (intro quiet_try_except_api quiet_andthen quiet_emit) simp_all

lemma quiet_calculate_rsi [intro!, simp]: "quiet (calculate_rsi r s p)"
  unfolding calculate_rsi_def by (intro quiet_try_except quiet_andthen quiet_emit) simp_all

lemma quiet_place_market_buy [intro!, simp]: "quiet (place_market_buy w s a)"
  unfolding place_market_buy_def
  by (intro quiet_try_except_api quiet_andthen quiet_emit quiet_if) simp_all

lemma quiet_withdraw_to_ronin [intro!, simp]: "quiet (withdraw_to_ronin r a addr)"
  unfolding withdraw_to_ronin_def by (intro quiet_try_except_api quiet_andthen quiet_emit) simp_all

subsection \<open>The stages return, and record their entry once\<close>

lemma returns_iff: "returns m = (\<exists>x. fst m = Inr x)"
  by (simp add: returns_def split: sum.splits)

lemma returns_ret [intro!, simp]: "returns (ret x)"
  by (simp add: returns_def)

lemma returns_emit [intro!, simp]: "returns (emit ev)"
  by (simp add: returns_def)

lemma returns_andthen [intro!]: "returns m \<Longrightarrow> (\<And>x. returns (f x)) \<Longrightarrow> returns (andthen m f)"
  by (auto simp: returns_iff fst_andthen)

lemma returns_try_except [intro!]: "(\<And>e. returns (h e)) \<Longrightarrow> returns (try_except m h)"
  by (auto simp: returns_iff fst_try_except split: sum.splits)

lemma returns_notify [intro!, simp]: "returns (notify b m)"
  by (simp add: notify_def)

lemma returns_calculate_rsi [simp]: "returns (calculate_rsi r s p)"
  unfolding calculate_rsi_def by (intro returns_try_except returns_andthen) simp_all

lemma returns_check_price_conditions [simp]: "returns (check_price_conditions w)"
  unfolding check_price_conditions_def by (intro returns_try_except returns_andthen) simp_all

lemma returns_execute_buy [simp]: "returns (execute_buy b w a)"
  unfolding execute_buy_def by (intro returns_try_except returns_andthen) simp_all

lemma returns_transfer_to_ronin [simp]: "returns (transfer_to_ronin b w a)"
  unfolding transfer_to_ronin_def by (intro returns_try_except returns_andthen) simp_all

lemma returns_stake_axs [simp]: "returns (stake_axs b w a)"
  unfolding stake_axs_def by (intro returns_try_except returns_andthen) simp_all

lemma returns_loop_body [simp]: "returns (loop_body b w)"
  unfolding loop_body_def by (intro returns_try_except returns_andthen) simp_all

lemma invocations_stage:
  "quiet m \<Longrightarrow> invocations (snd (andthen (emit (Invoke s)) (\<lambda>_. m))) = [s]"
  by (simp add: quiet_def)

lemma invocations_check_price_conditions [simp]:
  "invocations (snd (check_price_conditions w)) = [Check_price_conditions]"
  unfolding check_price_conditions_def Let_def
  by (intro invocations_stage quiet_try_except quiet_andthen quiet_emit quiet_if) simp_all

lemma invocations_execute_buy [simp]:
  "invocations (snd (execute_buy b w a)) = [Execute_buy a]"
  unfolding execute_buy_def execute_buy_try_def
  by (intro invocations_stage quiet_try_except quiet_andthen quiet_emit quiet_if) simp_all

lemma invocations_transfer_to_ronin [simp]:
  "invocations (snd (transfer_to_ronin b w a)) = [Transfer_to_ronin a]"
  unfolding transfer_to_ronin_def
  by (intro invocations_stage quiet_try_except quiet_andthen quiet_emit quiet_if) simp_all

lemma quiet_ronin_stake_axs [simp]: "quiet (ronin_stake_axs r a)"
  by (simp add: ronin_stake_axs_def)

lemma invocations_stake_axs [simp]:
  "invocations (snd (stake_axs b w a)) = [Stake_axs a]"
  unfolding stake_axs_def
  by (intro invocations_stage quiet_try_except quiet_andthen quiet_emit quiet_if) simp_all

lemma invocations_pipeline:
  "invocations (snd (pipeline b w a)) =
     Execute_buy a #
     (case fst (execute_buy b w a) of Inl e \<Rightarrow> [] | Inr order \<Rightarrow> stages_after_buy b w order)"
  by (simp add: pipeline_def snd_andthen fst_andthen stages_after_buy_def
           split: sum.splits)

section \<open>The signal evaluator\<close>

subsection \<open>The wrappers at concrete replies\<close>

lemma try_except_api_Inr: "fst m = Inr x \<Longrightarrow> try_except_api m h = m"
  by (simp add: try_except_api_def)

lemma try_except_api_external_Returns [simp]:
  "try_except_api (andthen (external c (Returns v)) f) h =
     (case fst (f v) of
        Inl (BinanceAPIException s) \<Rightarrow>
          (fst (h (BinanceAPIException s)), Call c # snd (f v) @ snd (h (BinanceAPIException s)))
      | _ \<Rightarrow> (fst (f v), Call c # snd (f v)))"
  by (simp add: try_except_api_def external_def andthen_def split: sum.splits exn.splits)

lemma try_except_api_external_RaisesApi [simp]:
  "try_except_api (andthen (external c (RaisesApi s)) f) h =
     (fst (h (BinanceAPIException s)), Call c # snd (h (BinanceAPIException s)))"
  by (simp add: try_except_api_def external_def andthen_def)

lemma format_kline_row [simp]:
  "format_kline (kline_row c) =
     Inr \<lparr>open_time = Num 0, open_price = c, high_price = c, low_price = c,
          close_price = c, volume = 1, close_time = Num 0\<rparr>"
  by (simp add: format_kline_def kline_row_def sum_bind_def)

lemma format_klines_map_row [simp]:
  "format_klines (map kline_row cs) =
     Inr (map (\<lambda>c. \<lparr>open_time = Num 0, open_price = c, high_price = c, low_price = c,
          close_price = c, volume = 1, close_time = Num 0\<rparr>) cs)"
  by (induction cs) (simp_all add: sum_bind_def)

lemma format_klines_replicate_row [simp]:
  "format_klines (replicate n (kline_row c)) =
     Inr (replicate n \<lparr>open_time = Num 0, open_price = c, high_price = c, low_price = c,
          close_price = c, volume = 1, close_time = Num 0\<rparr>)"
  by (induction n) (simp_all add: sum_bind_def)

lemma get_klines_flat_24:
  "get_klines (Returns flat_24) s i l =
     (Inr (replicate 24 \<lparr>open_time = Num 0, open_price = 100, high_price = 100, low_price = 100,
          close_price = 100, volume = 1, close_time = Num 0\<rparr>), [Call (Get_klines s i l)])"
  by (simp add: get_klines_def flat_24_def sum_bind_def)

lemma get_current_price_ticker [simp]:
  "get_current_price (Returns (ticker p)) s = (Inr p, [Call (Get_symbol_ticker s)])"
  by (simp add: get_current_price_def ticker_def sum_bind_def)

lemma get_current_price_RaisesApi [simp]:
  "get_current_price (RaisesApi x) s =
     (Inr 0, [Call (Get_symbol_ticker s), Log_error (Fehler_Preis (BinanceAPIException x))])"
  by (simp add: get_current_price_def)

lemma get_klines_RaisesApi [simp]:
  "get_klines (RaisesApi x) s i l =
     (Inr [], [Call (Get_klines s i l), Log_error (Fehler_Kline (BinanceAPIException x))])"
  by (simp add: get_klines_def)

lemma calculate_rsi_RaisesApi [simp]:
  "calculate_rsi (RaisesApi x) s p =
     (Inr (Finite 0), [Call (Get_klines s ''1h'' (p + 1)), Log_error (Fehler_Kline (BinanceAPIException x))])"
  by (simp add: calculate_rsi_def try_except_def andthen_def rsi_of_klines_def)

text \<open>
  C1.  The claim: whenever a fetch or the oscillator computation fails, the decision is
  false.  The code at the failing input: the candles of the mean arrive (24 closes of
  100), the ticker request raises a BinanceAPIException, so \<open>get_current_price\<close>
  returns 0.0, and the candle request of the oscillator raises one too, so
  \<open>calculate_rsi\<close> returns 0.0.  Both sentinels pass the comparisons
  (0 < 95 and 0 < 30) and the decision is true.
\<close>

theorem decision_true_on_failed_fetches:
  "fst (check_price_conditions failing_fetch_world) = Inr True"
  by (simp add: check_price_conditions_def failing_fetch_world_def demo_world_def
        get_klines_flat_24 andthen_def try_except_def py_div_def Let_def sum_list_replicate)

subsection \<open>The oscillator\<close>

lemma changes_of_nonempty: "2 \<le> length ks \<Longrightarrow> changes_of ks \<noteq> []"
  by (cases ks rule: changes_of.cases) simp_all

lemma sum_gains_nonneg: "0 \<le> sum_list (map (\<lambda>change. if change > 0 then change else (0::real)) xs)"
  by (rule sum_list_nonneg) auto

lemma sum_losses_nonneg: "0 \<le> sum_list (map (\<lambda>change. if change < 0 then - change else (0::real)) xs)"
  by (rule sum_list_nonneg) auto

lemma sum_losses_zero:
  "\<forall>d \<in> set xs. (0::real) \<le> d \<Longrightarrow> sum_list (map (\<lambda>change. if change < 0 then - change else 0) xs) = 0"
  by (induction xs) auto

lemma rsi_formula_bounds:
  assumes "(0::real) \<le> g" "0 < l"
  shows "0 \<le> 100 - 100 / (1 + g / l)" "100 - 100 / (1 + g / l) \<le> 100"
proof -
  have "1 \<le> 1 + g / l" using assms by simp
  then have "100 / (1 + g / l) \<le> 100 / 1"
    by (intro divide_left_mono) simp_all
  then show "0 \<le> 100 - 100 / (1 + g / l)" by simp
  have "0 \<le> 100 / (1 + g / l)" using \<open>1 \<le> 1 + g / l\<close> by simp
  then show "100 - 100 / (1 + g / l) \<le> 100" by simp
qed

lemma rsi_of_klines_bounds:
  assumes "2 \<le> length ks"
  shows "\<exists>x. rsi_of_klines ks = Finite x \<and> 0 \<le> x \<and> x \<le> 100 \<and>
             ((\<forall>d \<in> set (changes_of ks). 0 \<le> d) \<longrightarrow> x = 100)"
proof -
  define cs where "cs = changes_of ks"
  define G where "G = sum_list (map (\<lambda>change. if change > 0 then change else (0::real)) cs)"
  define L where "L = sum_list (map (\<lambda>change. if change < 0 then - change else (0::real)) cs)"
  define n where "n = real (length cs)"
  have cs: "cs \<noteq> []" using assms by (simp add: cs_def changes_of_nonempty)
  then have n: "0 < n" by (simp add: n_def)
  have G: "0 \<le> G" and L: "0 \<le> L" by (simp_all add: G_def L_def sum_gains_nonneg sum_losses_nonneg)
  have ks: "ks \<noteq> []" using assms by auto
  have eq: "rsi_of_klines ks =
      (if L / n = 0 then Finite 100
       else fl_sub (Finite 100) (fl_div (Finite 100) (fl_add (Finite 1) (fl_div (Finite (G / n)) (Finite (L / n))))))"
    using ks cs by (simp add: rsi_of_klines_def Let_def np_mean_def cs_def[symmetric] G_def L_def n_def)
  show ?thesis
  proof (cases "L = 0")
    case True
    then show ?thesis by (simp add: eq)
  next
    case False
    then have Lp: "0 < L / n" and Ln: "L / n \<noteq> 0" using L n by simp_all
    have Gp: "0 \<le> G / n" using G n by simp
    have one: "1 + G / n / (L / n) \<noteq> 0"
    proof -
      have "0 \<le> (G / n) / (L / n)" by (rule divide_nonneg_pos[OF Gp Lp])
      then show ?thesis by linarith
    qed
    define x where "x = 100 - 100 / (1 + (G / n) / (L / n))"
    have val: "rsi_of_klines ks = Finite x"
      unfolding x_def using Ln one
      by (simp add: eq del: divide_divide_eq_left divide_divide_eq_right
            times_divide_eq_left times_divide_eq_right)
    have lo: "0 \<le> x" unfolding x_def by (rule rsi_formula_bounds(1)[OF Gp Lp])
    have hi: "x \<le> 100" unfolding x_def by (rule rsi_formula_bounds(2)[OF Gp Lp])
    have notall: "\<not> (\<forall>d \<in> set (changes_of ks). 0 \<le> d)"
    proof
      assume "\<forall>d \<in> set (changes_of ks). 0 \<le> d"
      then have "L = 0" unfolding L_def cs_def by (rule sum_losses_zero)
      with False show False by simp
    qed
    show ?thesis
      using val lo hi notall by blast
  qed
qed

lemma calculate_rsi_of_klines:
  "fst (get_klines r symbol ''1h'' (period + 1)) = Inr klines \<Longrightarrow>
   fst (calculate_rsi r symbol period) = Inr (rsi_of_klines klines)"
  by (simp add: calculate_rsi_def fst_try_except fst_andthen)


lemma get_klines_falling_15:
  "get_klines (Returns falling_15) s i l =
     (Inr (map candle_at [104, 103, 102, 101, 100, 99, 98, 97, 96, 95, 94, 93, 92, 91, 90]),
      [Call (Get_klines s i l)])"
  by (simp add: get_klines_def falling_15_def sum_bind_def candle_at_def)

lemma get_klines_rising_15:
  "get_klines (Returns rising_15) s i l =
     (Inr (map candle_at [90, 91, 92, 93, 94, 95, 96, 97, 98, 99, 100, 101, 102, 103, 104]),
      [Call (Get_klines s i l)])"
  by (simp add: get_klines_def rising_15_def sum_bind_def candle_at_def)

lemma rsi_falling_15:
  "rsi_of_klines (map candle_at [104, 103, 102, 101, 100, 99, 98, 97, 96, 95, 94, 93, 92, 91, 90]) = Finite 0"
  by (simp add: rsi_of_klines_def np_mean_def candle_at_def)


subsection \<open>The decision\<close>

lemma fst_decision:
  "fst (if c then andthen (emit ev) (\<lambda>_. ret True) else ret False) = Inr c"
  by simp


lemma calculate_rsi_falling_15:
  "fst (calculate_rsi (Returns falling_15) ''AXSUSDT'' 14) = Inr (Finite 0)"
proof -
  have "fst (get_klines (Returns falling_15) ''AXSUSDT'' ''1h'' (14 + 1)) =
      Inr (map candle_at [104, 103, 102, 101, 100, 99, 98, 97, 96, 95, 94, 93, 92, 91, 90])"
    by (simp only: get_klines_falling_15 fst_conv)
  from calculate_rsi_of_klines[OF this] show ?thesis
    by (simp only: rsi_falling_15)
qed


section \<open>The market buy\<close>

lemma sum_bind_no_zdiv:
  "r \<noteq> Inl ZeroDivisionError \<Longrightarrow> (\<And>x. f x \<noteq> Inl ZeroDivisionError) \<Longrightarrow>
   sum_bind r f \<noteq> Inl ZeroDivisionError"
  by (auto simp: sum_bind_def split: sum.splits)

lemma subscript_no_zdiv [simp]: "subscript v k \<noteq> Inl ZeroDivisionError"
  by (cases v) (simp_all split: option.splits)

lemma py_float_no_zdiv [simp]: "py_float v \<noteq> Inl ZeroDivisionError"
  by (cases v) simp_all

lemma py_Decimal_no_zdiv [simp]: "py_Decimal v \<noteq> Inl ZeroDivisionError"
  by (cases v) simp_all

lemma py_iter_no_zdiv [simp]: "py_iter v \<noteq> Inl ZeroDivisionError"
  by (cases v) simp_all

lemma next_lot_size_no_zdiv [simp]: "next_lot_size fs \<noteq> Inl ZeroDivisionError"
proof (induction fs)
  case Nil
  show ?case by simp
next
  case (Cons f fs)
  show ?case
    unfolding next_lot_size.simps
    by (rule sum_bind_no_zdiv) (simp_all add: Cons.IH)
qed

lemma external_no_zdiv [simp]: "fst (external c r) \<noteq> Inl ZeroDivisionError"
  by (simp add: external_def split: reply.splits)

lemma andthen_no_zdiv:
  "fst m \<noteq> Inl ZeroDivisionError \<Longrightarrow> (\<And>x. fst (f x) \<noteq> Inl ZeroDivisionError) \<Longrightarrow>
   fst (andthen m f) \<noteq> Inl ZeroDivisionError"
  by (auto simp: fst_andthen split: sum.splits)

lemma try_except_api_no_zdiv:
  "fst m \<noteq> Inl ZeroDivisionError \<Longrightarrow> (\<And>e. fst (h e) \<noteq> Inl ZeroDivisionError) \<Longrightarrow>
   fst (try_except_api m h) \<noteq> Inl ZeroDivisionError"
  by (auto simp: try_except_api_def split: sum.splits exn.splits)

lemma get_current_price_no_zdiv [simp]:
  "fst (get_current_price r symbol) \<noteq> Inl ZeroDivisionError"
  unfolding get_current_price_def
  by (intro try_except_api_no_zdiv andthen_no_zdiv) (simp_all add: sum_bind_no_zdiv)

lemma place_market_buy_no_zdiv:
  "fst (place_market_buy w symbol usdt_amount) \<noteq> Inl ZeroDivisionError"
  unfolding place_market_buy_def
proof (intro try_except_api_no_zdiv andthen_no_zdiv)
  fix price
  show "fst (if price = 0 then ret Nothing
          else andthen (lift (py_div usdt_amount price)) (\<lambda>quantity.
            andthen (external (Get_symbol_info symbol) (symbol_info w)) (\<lambda>info.
            andthen (lift (sum_bind (sum_bind (subscript info ''filters'') py_iter) next_lot_size))
              (\<lambda>lot_size.
            andthen (lift (sum_bind (subscript lot_size ''stepSize'') py_Decimal)) (\<lambda>step_size.
            andthen (lift (case quantize w quantity step_size of
                             None \<Rightarrow> Inl InvalidOperation | Some q \<Rightarrow> Inr q)) (\<lambda>quantity.
              external (Order_market_buy symbol quantity) (order_reply w)))))))
        \<noteq> Inl ZeroDivisionError"
  proof (cases "price = 0")
    case True
    then show ?thesis by simp
  next
    case False
    then have "py_div usdt_amount price \<noteq> Inl ZeroDivisionError"
      by (simp add: py_div_def)
    with False show ?thesis
      by (simp only: if_False)
        (intro andthen_no_zdiv; simp add: sum_bind_no_zdiv split: option.splits)
  qed
qed simp_all

text \<open>
  C9.  When the price that \<open>place_market_buy\<close> fetches is zero, it returns None having
  done nothing but the fetch; and no call of \<open>place_market_buy\<close> raises
  ZeroDivisionError.
\<close>

theorem market_buy_without_price:
  "(fst (get_current_price (ticker_buy w) symbol) = Inr 0 \<longrightarrow>
      place_market_buy w symbol usdt_amount =
        (Inr Nothing, snd (get_current_price (ticker_buy w) symbol)))
   \<and> fst (place_market_buy w symbol usdt_amount) \<noteq> Inl ZeroDivisionError"
proof (intro conjI impI)
  assume "fst (get_current_price (ticker_buy w) symbol) = Inr 0"
  then show "place_market_buy w symbol usdt_amount =
      (Inr Nothing, snd (get_current_price (ticker_buy w) symbol))"
    by (simp add: place_market_buy_def andthen_Inr try_except_api_def)
next
  show "fst (place_market_buy w symbol usdt_amount) \<noteq> Inl ZeroDivisionError"
    by (rule place_market_buy_no_zdiv)
qed

theorem market_buy_without_price_witness:
  "place_market_buy (demo_world\<lparr>ticker_buy := RaisesApi ''-1003''\<rparr>) ''AXSUSDT'' 50 =
     (Inr Nothing,
      [Call (Get_symbol_ticker ''AXSUSDT''),
       Log_error (Fehler_Preis (BinanceAPIException ''-1003''))])"
  using market_buy_without_price[of "demo_world\<lparr>ticker_buy := RaisesApi ''-1003''\<rparr>" "''AXSUSDT''" 50]
  by (simp add: demo_world_def)

section \<open>The poll loop\<close>

lemma invocations_notify [simp]: "invocations (snd (notify b m)) = []"
  by (simp add: notify_def)

lemma invocations_get_balance [simp]: "invocations (snd (get_balance r asset)) = []"
  using quiet_get_balance[of r asset] by (simp add: quiet_def)

text \<open>The stages one iteration invokes, in order.\<close>

lemma invocations_loop_try:
  "invocations (snd (loop_try b w)) =
     (case fst (get_balance (balance_reply w) ''USDT'') of
        Inl e \<Rightarrow> []
      | Inr usdt_balance \<Rightarrow>
          (case sum_bind (config_get b ''BOT_SETTINGS'' ''usdt_amount'') py_Decimal of
             Inl e \<Rightarrow> []
           | Inr usdt_amount \<Rightarrow>
               if usdt_balance \<ge> usdt_amount
               then Check_price_conditions #
                    (case fst (check_price_conditions w) of
                       Inl e \<Rightarrow> []
                     | Inr signal \<Rightarrow>
                         if signal then invocations (snd (pipeline b w usdt_amount)) else [])
               else []))"
  by (simp add: loop_try_def snd_andthen fst_andthen split: sum.splits)

lemma invocations_loop_body:
  "invocations (snd (loop_body b w)) = invocations (snd (loop_try b w))"
  by (simp add: loop_body_def snd_try_except snd_andthen split: sum.splits)

lemma get_balance_RaisesApi:
  "get_balance (RaisesApi s) asset =
     (Inr 0, [Call (Get_asset_balance asset),
              Log_error (Fehler_Kontostand asset (BinanceAPIException s))])"
  by (simp add: get_balance_def)

text \<open>
  C10.  When the balance request raises a BinanceAPIException, \<open>get_balance\<close> returns
  0; with a configured trade amount above 0, the iteration then enters neither the
  signal evaluator nor any stage of the pipeline, and the balance request is its only
  external call.
\<close>

theorem balance_failure_skips_iteration:
  assumes "balance_reply w = RaisesApi s"
    and "sum_bind (config_get b ''BOT_SETTINGS'' ''usdt_amount'') py_Decimal = Inr usdt_amount"
    and "0 < usdt_amount"
  shows "fst (get_balance (balance_reply w) ''USDT'') = Inr 0
       \<and> invocations (snd (loop_body b w)) = []
       \<and> (\<forall>c. Call c \<in> set (snd (loop_body b w)) \<longrightarrow> c = Get_asset_balance ''USDT'')"
proof (intro conjI)
  show "fst (get_balance (balance_reply w) ''USDT'') = Inr 0"
    by (simp add: assms(1) get_balance_RaisesApi)
  show "invocations (snd (loop_body b w)) = []"
    using assms by (simp add: invocations_loop_body invocations_loop_try get_balance_RaisesApi)
  show "\<forall>c. Call c \<in> set (snd (loop_body b w)) \<longrightarrow> c = Get_asset_balance ''USDT''"
    using assms
    by (auto simp: loop_body_def loop_try_def get_balance_RaisesApi andthen_def try_except_def
          notify_def emit_def ret_def lift_def split: sum.splits if_splits)
qed

theorem balance_failure_skips_iteration_witness:
  "snd (loop_body demo_bot no_balance_world) =
     [Call (Get_asset_balance ''USDT''),
      Log_error (Fehler_Kontostand ''USDT'' (BinanceAPIException ''-1003'')),
      Sleep 300]"
  using balance_failure_skips_iteration[of no_balance_world "''-1003''" demo_bot 50]
  by (simp add: no_balance_world_def demo_world_def demo_bot_def config_get_def sum_bind_def
        loop_body_def loop_try_def get_balance_RaisesApi andthen_def try_except_def)

text \<open>
  C8.  \<open>stop\<close> on a bot whose run flag is already false leaves the bot as it is; each
  call logs once and then, with a notifier, sends the one message "Bot gestoppt", so a
  repeated call appends the same two effects after those of the call before.
\<close>

theorem stop_idempotent:
  "(\<not> running b \<longrightarrow> fst (stop b) = b)
   \<and> fst (stop (fst (stop b))) = fst (stop b)
   \<and> snd (stop (fst (stop b))) = snd (stop b)
   \<and> snd (stop b) = Log_info Bot_gestoppt # (if telegram b then [Send_message Bot_gestoppt] else [])"
  by (simp add: stop_def notify_def)

theorem stop_idempotent_witness:
  "fst (stop (demo_bot\<lparr>running := False\<rparr>)) = demo_bot\<lparr>running := False\<rparr>"
  using stop_idempotent[of "demo_bot\<lparr>running := False\<rparr>"]
  by simp

lemmas comp_defs =
  andthen_def try_except_def try_except_api_def external_def ret_def lift_def emit_def
  notify_def sum_bind_def py_div_def config_get_def

lemma fst_loop_body [simp]: "fst (loop_body b w) = Inr ()"
  using returns_loop_body[of b w] by (simp add: returns_iff)

lemma poll_loop_stopped [simp]: "\<not> running b \<Longrightarrow> poll_loop b ws = (b, [], 0, None)"
  by (cases ws) auto

lemma poll_loop_step:
  assumes "running b"
  shows "poll_loop b ((w, False) # ws) =
     (case poll_loop b ws of (b', t, n, x) \<Rightarrow> (b', snd (loop_body b w) @ t, Suc n, x))"
proof -
  obtain t where "loop_body b w = (Inr (), t)"
    using fst_loop_body[of b w] by (cases "loop_body b w") auto
  with assms show ?thesis
    by (auto split: prod.splits)
qed

lemma poll_loop_no_stop:
  "running b \<Longrightarrow> \<forall>i \<in> set ws. \<not> snd i \<Longrightarrow>
   poll_loop b ws = (b, concat (map (\<lambda>i. snd (loop_body b (fst i))) ws), length ws, None)"
proof (induction ws)
  case Nil
  then show ?case by simp
next
  case (Cons i ws)
  obtain w s where i: "i = (w, s)" by (cases i)
  with Cons.prems have s: "s = False" by simp
  show ?case
    using Cons by (simp add: i s poll_loop_step del: poll_loop.simps)
qed


lemma loop_try_broken_bot:
  "loop_try broken_bot demo_world =
     (Inl (KeyError ''check_interval''), [Call (Get_asset_balance ''USDT'')])"
  by (simp add: loop_try_def broken_bot_def demo_bot_def demo_world_def get_balance_def
        comp_defs)


section \<open>The pipeline\<close>

lemma fst_execute_buy_ex: "\<exists>order. fst (execute_buy b w a) = Inr order"
  using returns_execute_buy[of b w a] by (simp add: returns_iff)

lemma fst_check_price_conditions_ex: "\<exists>signal. fst (check_price_conditions w) = Inr signal"
  using returns_check_price_conditions[of w] by (simp add: returns_iff)

text \<open>What the buy stage returns is None or the order that \<open>place_market_buy\<close> gave, filled.\<close>

lemma execute_buy_try_result:
  assumes "fst (execute_buy_try b w a) = Inr r"
  shows "r = Nothing \<or>
         (fst (place_market_buy w ''AXSUSDT'' a) = Inr r \<and> truthy r \<and>
          subscript r ''status'' = Inr (Str ''FILLED''))"
  using assms
  by (auto simp: execute_buy_try_def fst_andthen sum_bind_def notify_def
        split: sum.splits if_splits)

lemma fst_execute_buy:
  "fst (execute_buy b w a) =
     (case fst (execute_buy_try b w a) of Inl e \<Rightarrow> Inr Nothing | Inr r \<Rightarrow> Inr r)"
  by (simp add: execute_buy_def fst_try_except fst_andthen notify_def split: sum.splits)

lemma execute_buy_result:
  assumes "fst (execute_buy b w a) = Inr r"
  shows "r = Nothing \<or>
         (fst (place_market_buy w ''AXSUSDT'' a) = Inr r \<and> truthy r \<and>
          subscript r ''status'' = Inr (Str ''FILLED''))"
  using assms execute_buy_try_result[of b w a]
  by (auto simp: fst_execute_buy split: sum.splits)

text \<open>The stages of one iteration: none, the evaluator alone, or the evaluator and a pipeline run.\<close>

lemma iteration_stages:
  "invocations (snd (loop_body b w)) = [] \<or>
   invocations (snd (loop_body b w)) = [Check_price_conditions] \<or>
   (\<exists>amt order.
      sum_bind (config_get b ''BOT_SETTINGS'' ''usdt_amount'') py_Decimal = Inr amt \<and>
      fst (execute_buy b w amt) = Inr order \<and>
      invocations (snd (loop_body b w)) =
        Check_price_conditions # Execute_buy amt # stages_after_buy b w order)"
proof -
  obtain signal where s: "fst (check_price_conditions w) = Inr signal"
    using fst_check_price_conditions_ex by blast
  show ?thesis
  proof (cases "sum_bind (config_get b ''BOT_SETTINGS'' ''usdt_amount'') py_Decimal")
    case (Inl e)
    then show ?thesis
      by (simp add: invocations_loop_body invocations_loop_try split: sum.splits)
  next
    case (Inr amt)
    obtain order where o: "fst (execute_buy b w amt) = Inr order"
      using fst_execute_buy_ex by blast
    show ?thesis
      using Inr s o
      by (simp add: invocations_loop_body invocations_loop_try invocations_pipeline
            split: sum.splits)
  qed
qed

lemma Transfer_in_stages_after_buy:
  "Transfer_to_ronin a \<in> set (stages_after_buy b w order) \<longleftrightarrow>
     truthy order \<and> sum_bind (subscript order ''executedQty'') py_Decimal = Inr a"
proof (cases "truthy order")
  case False
  then show ?thesis by (simp add: stages_after_buy_def)
next
  case True
  show ?thesis
  proof (cases "sum_bind (subscript order ''executedQty'') py_Decimal")
    case (Inl e)
    with True show ?thesis by (simp add: stages_after_buy_def)
  next
    case (Inr q)
    with True show ?thesis
      by (cases "fst (transfer_to_ronin b w q)") (auto simp: stages_after_buy_def)
  qed
qed

lemma Stake_in_stages_after_buy:
  "Stake_axs a \<in> set (stages_after_buy b w order) \<longleftrightarrow>
     truthy order \<and> sum_bind (subscript order ''executedQty'') py_Decimal = Inr a \<and>
     (\<exists>tx_hash. fst (transfer_to_ronin b w a) = Inr tx_hash \<and> truthy tx_hash)"
proof (cases "truthy order")
  case False
  then show ?thesis by (simp add: stages_after_buy_def)
next
  case True
  show ?thesis
  proof (cases "sum_bind (subscript order ''executedQty'') py_Decimal")
    case (Inl e)
    with True show ?thesis by (simp add: stages_after_buy_def)
  next
    case (Inr q)
    with True show ?thesis
      by (cases "fst (transfer_to_ronin b w q)") (auto simp: stages_after_buy_def)
  qed
qed

lemma Execute_buy_notin_stages_after_buy [simp]:
  "Execute_buy x \<notin> set (stages_after_buy b w order)"
proof (cases "truthy order")
  case False
  then show ?thesis by (simp add: stages_after_buy_def)
next
  case True
  show ?thesis
  proof (cases "sum_bind (subscript order ''executedQty'') py_Decimal")
    case (Inl e)
    with True show ?thesis by (simp add: stages_after_buy_def)
  next
    case (Inr q)
    with True show ?thesis
      by (cases "fst (transfer_to_ronin b w q)") (auto simp: stages_after_buy_def)
  qed
qed

lemma stages_after_buy_falsy: "\<not> truthy order \<Longrightarrow> stages_after_buy b w order = []"
  by (simp add: stages_after_buy_def)

text \<open>
  C2.  In one iteration: if the withdraw stage is entered, the buy stage was entered and
  returned a filled order; if the stake stage is entered, the withdraw stage was entered
  with the same amount and returned a withdrawal identifier; after a buy stage that
  returns nothing no later stage is entered, after a withdraw stage that returns nothing
  the stake stage is not entered; and the iteration ends normally, so the loop goes on.
\<close>

theorem pipeline_stage_order:
  "(Transfer_to_ronin a \<in> set (invocations (snd (loop_body b w))) \<longrightarrow>
      (\<exists>amt order. Execute_buy amt \<in> set (invocations (snd (loop_body b w))) \<and>
         fst (execute_buy b w amt) = Inr order \<and> truthy order \<and>
         subscript order ''status'' = Inr (Str ''FILLED'')))
   \<and> (Stake_axs a \<in> set (invocations (snd (loop_body b w))) \<longrightarrow>
      (\<exists>tx_hash. Transfer_to_ronin a \<in> set (invocations (snd (loop_body b w))) \<and>
         fst (transfer_to_ronin b w a) = Inr tx_hash \<and> truthy tx_hash))
   \<and> (Execute_buy amt \<in> set (invocations (snd (loop_body b w))) \<and>
        fst (execute_buy b w amt) = Inr order \<and> \<not> truthy order \<longrightarrow>
        invocations (snd (loop_body b w)) = [Check_price_conditions, Execute_buy amt])
   \<and> (Transfer_to_ronin a \<in> set (invocations (snd (loop_body b w))) \<and>
        fst (transfer_to_ronin b w a) = Inr tx_hash \<and> \<not> truthy tx_hash \<longrightarrow>
        (\<forall>a'. Stake_axs a' \<notin> set (invocations (snd (loop_body b w)))))
   \<and> fst (loop_body b w) = Inr ()"
proof (intro conjI impI)
  assume "Transfer_to_ronin a \<in> set (invocations (snd (loop_body b w)))"
  with iteration_stages[of b w]
  have "\<exists>amt order. fst (execute_buy b w amt) = Inr order \<and>
      invocations (snd (loop_body b w)) =
          Check_price_conditions # Execute_buy amt # stages_after_buy b w order \<and>
      Transfer_to_ronin a \<in> set (stages_after_buy b w order)"
    by (elim disjE exE conjE) auto
  then obtain amt order where
    o: "fst (execute_buy b w amt) = Inr order" and
    i: "invocations (snd (loop_body b w)) =
          Check_price_conditions # Execute_buy amt # stages_after_buy b w order" and
    t: "Transfer_to_ronin a \<in> set (stages_after_buy b w order)"
    by blast
  from t have tr: "truthy order"
    by (simp add: Transfer_in_stages_after_buy)
  with execute_buy_result[OF o] have "subscript order ''status'' = Inr (Str ''FILLED'')"
    by auto
  with o i tr
  show "\<exists>amt order. Execute_buy amt \<in> set (invocations (snd (loop_body b w))) \<and>
         fst (execute_buy b w amt) = Inr order \<and> truthy order \<and>
         subscript order ''status'' = Inr (Str ''FILLED'')"
    by auto
next
  assume "Stake_axs a \<in> set (invocations (snd (loop_body b w)))"
  with iteration_stages[of b w]
  have "\<exists>amt order.
      invocations (snd (loop_body b w)) =
          Check_price_conditions # Execute_buy amt # stages_after_buy b w order \<and>
      Stake_axs a \<in> set (stages_after_buy b w order)"
    by (elim disjE exE conjE) auto
  then obtain amt order where
    i: "invocations (snd (loop_body b w)) =
          Check_price_conditions # Execute_buy amt # stages_after_buy b w order" and
    t: "Stake_axs a \<in> set (stages_after_buy b w order)"
    by blast
  from t have "Transfer_to_ronin a \<in> set (stages_after_buy b w order) \<and>
      (\<exists>tx_hash. fst (transfer_to_ronin b w a) = Inr tx_hash \<and> truthy tx_hash)"
    by (simp add: Stake_in_stages_after_buy Transfer_in_stages_after_buy)
  with i show "\<exists>tx_hash. Transfer_to_ronin a \<in> set (invocations (snd (loop_body b w))) \<and>
         fst (transfer_to_ronin b w a) = Inr tx_hash \<and> truthy tx_hash"
    by auto
next
  assume h: "Execute_buy amt \<in> set (invocations (snd (loop_body b w))) \<and>
        fst (execute_buy b w amt) = Inr order \<and> \<not> truthy order"
  then have "stages_after_buy b w order = []"
    by (simp add: stages_after_buy_falsy)
  with iteration_stages[of b w] h
  show "invocations (snd (loop_body b w)) = [Check_price_conditions, Execute_buy amt]"
    by (elim disjE exE conjE) auto
next
  assume h: "Transfer_to_ronin a \<in> set (invocations (snd (loop_body b w))) \<and>
        fst (transfer_to_ronin b w a) = Inr tx_hash \<and> \<not> truthy tx_hash"
  show "\<forall>a'. Stake_axs a' \<notin> set (invocations (snd (loop_body b w)))"
  proof (intro allI notI)
    fix a'
    assume s: "Stake_axs a' \<in> set (invocations (snd (loop_body b w)))"
    with iteration_stages[of b w]
    have "\<exists>amt order.
        invocations (snd (loop_body b w)) =
            Check_price_conditions # Execute_buy amt # stages_after_buy b w order \<and>
        Stake_axs a' \<in> set (stages_after_buy b w order)"
      by (elim disjE exE conjE) auto
    then obtain amt order where
      i: "invocations (snd (loop_body b w)) =
            Check_price_conditions # Execute_buy amt # stages_after_buy b w order" and
      t: "Stake_axs a' \<in> set (stages_after_buy b w order)"
      by blast
    from h i have "Transfer_to_ronin a \<in> set (stages_after_buy b w order)"
      by simp
    with t have "a' = a" and "\<exists>tx. fst (transfer_to_ronin b w a') = Inr tx \<and> truthy tx"
      by (simp_all add: Stake_in_stages_after_buy Transfer_in_stages_after_buy)
    with h show False by simp
  qed
next
  show "fst (loop_body b w) = Inr ()" by simp
qed

subsection \<open>An iteration in which everything succeeds\<close>

lemma place_market_buy_demo:
  "place_market_buy demo_world ''AXSUSDT'' 50 =
     (Inr demo_order,
      [Call (Get_symbol_ticker ''AXSUSDT''), Call (Get_symbol_info ''AXSUSDT''),
       Call (Order_market_buy ''AXSUSDT'' (5 / 9))])"
  by (simp add: place_market_buy_def demo_world_def demo_order_def comp_defs)

lemma execute_buy_demo:
  "execute_buy demo_bot demo_world 50 =
     (Inr demo_order,
      [Invoke (Execute_buy 50),
       Call (Get_symbol_ticker ''AXSUSDT''), Call (Get_symbol_info ''AXSUSDT''),
       Call (Order_market_buy ''AXSUSDT'' (5 / 9)),
       Log_info (Kauf_ausgefuehrt (DecStr (1 / 2)) 50),
       Send_message (Kauf_ausgefuehrt (DecStr (1 / 2)) 50)])"
  by (simp add: execute_buy_def execute_buy_try_def place_market_buy_demo demo_order_def
        demo_bot_def comp_defs)

lemma transfer_to_ronin_demo:
  "transfer_to_ronin demo_bot demo_world (1 / 2) =
     (Inr (Str ''w1''),
      [Invoke (Transfer_to_ronin (1 / 2)),
       Call (Withdraw ''AXS'' (Str ''ronin:abc'') (1 / 2) ''Ronin''),
       Log_info (Transfer_initiiert (1 / 2)), Send_message (Transfer_initiiert (1 / 2))])"
  by (simp add: transfer_to_ronin_def withdraw_to_ronin_def demo_bot_def demo_world_def
        comp_defs)

lemma check_price_conditions_demo: "fst (check_price_conditions demo_world) = Inr True"
  by (simp add: check_price_conditions_def demo_world_def get_klines_flat_24
        calculate_rsi_falling_15 fst_andthen fst_try_except py_div_def Let_def
        sum_list_replicate)

lemma get_balance_demo:
  "get_balance (balance_reply demo_world) ''USDT'' = (Inr 80, [Call (Get_asset_balance ''USDT'')])"
  by (simp add: get_balance_def demo_world_def comp_defs)

lemma usdt_amount_demo:
  "sum_bind (config_get demo_bot ''BOT_SETTINGS'' ''usdt_amount'') py_Decimal = Inr 50"
  by (simp add: demo_bot_def comp_defs)

lemma stages_after_buy_demo:
  "stages_after_buy demo_bot demo_world demo_order = [Transfer_to_ronin (1 / 2), Stake_axs (1 / 2)]"
  by (simp add: stages_after_buy_def demo_order_def sum_bind_def transfer_to_ronin_demo)

lemma invocations_loop_body_demo:
  "invocations (snd (loop_body demo_bot demo_world)) =
     [Check_price_conditions, Execute_buy 50, Transfer_to_ronin (1 / 2), Stake_axs (1 / 2)]"
  by (simp add: invocations_loop_body invocations_loop_try invocations_pipeline
        get_balance_demo usdt_amount_demo check_price_conditions_demo execute_buy_demo
        stages_after_buy_demo)

subsection \<open>Computations that send no message\<close>

lemma notifications_simps [simp]:
  "notifications [] = []"
  "notifications (ev # t) = sent ev @ notifications t"
  "notifications (t @ t') = notifications t @ notifications t'"
  by (simp_all add: notifications_def)

lemma logs_simps [simp]:
  "logs [] = []"
  "logs (ev # t) = logged ev @ logs t"
  "logs (t @ t') = logs t @ logs t'"
  by (simp_all add: logs_def)

lemma mute_ret [simp]: "mute (ret x)"
  by (simp add: mute_def)

lemma mute_lift [simp]: "mute (lift r)"
  by (simp add: mute_def)

lemma mute_emit: "sent ev = [] \<Longrightarrow> mute (emit ev)"
  by (simp add: mute_def)

lemma mute_external [simp]: "mute (external c r)"
  by (simp add: mute_def external_def split: reply.splits)

lemma mute_andthen: "mute m \<Longrightarrow> (\<And>x. mute (f x)) \<Longrightarrow> mute (andthen m f)"
  by (simp add: mute_def snd_andthen split: sum.splits)

lemma mute_try_except_api: "mute m \<Longrightarrow> (\<And>e. mute (h e)) \<Longrightarrow> mute (try_except_api m h)"
  by (simp add: mute_def try_except_api_def split: sum.splits exn.splits)

lemma mute_if: "(c \<Longrightarrow> mute m) \<Longrightarrow> (\<not> c \<Longrightarrow> mute m') \<Longrightarrow> mute (if c then m else m')"
  by simp

lemma mute_get_current_price [simp]: "mute (get_current_price r s)"
  unfolding get_current_price_def by (intro mute_try_except_api mute_andthen mute_emit) simp_all

lemma mute_place_market_buy: "mute (place_market_buy w s a)"
  unfolding place_market_buy_def
  by (intro mute_try_except_api mute_andthen mute_emit mute_if) simp_all

subsection \<open>Stage order, amounts and the failing buy\<close>

text \<open>
  C2, at a concrete input: everything succeeds, the withdraw stage is entered, and the
  buy stage before it returned a filled order.
\<close>

theorem pipeline_stage_order_witness:
  "Transfer_to_ronin (1 / 2) \<in> set (invocations (snd (loop_body demo_bot demo_world))) \<and>
   (\<exists>amt order. Execute_buy amt \<in> set (invocations (snd (loop_body demo_bot demo_world))) \<and>
       fst (execute_buy demo_bot demo_world amt) = Inr order \<and> truthy order \<and>
       subscript order ''status'' = Inr (Str ''FILLED''))"
  using pipeline_stage_order[where a = "1 / 2" and b = demo_bot and w = demo_world]
  by (simp add: invocations_loop_body_demo)

text \<open>
  C7.  In an iteration whose buy stage returns an order, the withdraw stage and the
  stake stage are entered with no other amount than the decimal value of the order's
  \<open>executedQty\<close>, and the withdraw stage is entered with it whenever that value exists.
\<close>

theorem executed_quantity_is_passed_on:
  assumes "Execute_buy amt \<in> set (invocations (snd (loop_body b w)))"
    and "fst (execute_buy b w amt) = Inr order"
    and "truthy order"
  shows "(Transfer_to_ronin a \<in> set (invocations (snd (loop_body b w))) \<longrightarrow>
            sum_bind (subscript order ''executedQty'') py_Decimal = Inr a)
       \<and> (Stake_axs a \<in> set (invocations (snd (loop_body b w))) \<longrightarrow>
            sum_bind (subscript order ''executedQty'') py_Decimal = Inr a)
       \<and> (sum_bind (subscript order ''executedQty'') py_Decimal = Inr q \<longrightarrow>
            Transfer_to_ronin q \<in> set (invocations (snd (loop_body b w))))"
proof -
  from iteration_stages[of b w] assms(1)
  have "\<exists>amt' order'. fst (execute_buy b w amt') = Inr order' \<and>
      invocations (snd (loop_body b w)) =
        Check_price_conditions # Execute_buy amt' # stages_after_buy b w order' \<and>
      amt' = amt"
    by (elim disjE exE conjE) auto
  with assms(2) have i: "invocations (snd (loop_body b w)) =
        Check_price_conditions # Execute_buy amt # stages_after_buy b w order"
    by auto
  show ?thesis
    using assms(3)
    by (simp add: i Transfer_in_stages_after_buy Stake_in_stages_after_buy)
qed

theorem executed_quantity_is_passed_on_witness:
  "Transfer_to_ronin (1 / 2) \<in> set (invocations (snd (loop_body demo_bot demo_world))) \<and>
   Stake_axs (1 / 2) \<in> set (invocations (snd (loop_body demo_bot demo_world))) \<and>
   sum_bind (subscript demo_order ''executedQty'') py_Decimal = Inr (1 / 2)"
  using executed_quantity_is_passed_on[of 50 demo_bot demo_world demo_order "1 / 2" "1 / 2"]
  by (simp add: invocations_loop_body_demo execute_buy_demo demo_order_def sum_bind_def)

lemma place_market_buy_expired:
  "place_market_buy expired_order_world ''AXSUSDT'' 50 =
     (Inr expired_order,
      [Call (Get_symbol_ticker ''AXSUSDT''), Call (Get_symbol_info ''AXSUSDT''),
       Call (Order_market_buy ''AXSUSDT'' (5 / 9))])"
  by (simp add: place_market_buy_def expired_order_world_def demo_world_def comp_defs)

text \<open>
  C5, as stated, fails: the exchange answers the order with status EXPIRED, the buy
  stage returns None, and it has logged nothing and sent nothing, though the bot has a
  notifier.
\<close>

theorem buy_failure_without_notification:
  "fst (execute_buy demo_bot expired_order_world 50) = Inr Nothing \<and>
   notifications (snd (execute_buy demo_bot expired_order_world 50)) = [] \<and>
   logs (snd (execute_buy demo_bot expired_order_world 50)) = [] \<and>
   telegram demo_bot"
  by (simp add: execute_buy_def execute_buy_try_def place_market_buy_expired expired_order_def
        demo_bot_def comp_defs)

text \<open>
  C5, amended.  A buy stage that fails returns None, and the pipeline enters no further
  stage.  When the failure is an exception raised in the stage, the stage logs the error
  and, if the bot has a notifier, sends the failure message with the reason.  When no
  order is returned or the fill status is not FILLED, the stage logs nothing and sends
  nothing of its own, and the exchange client sends nothing either.
\<close>

theorem buy_failure:
  "(fst (execute_buy_try b w amt) = Inl e \<longrightarrow>
      execute_buy b w amt =
        (Inr Nothing,
         Invoke (Execute_buy amt) # snd (execute_buy_try b w amt) @
         Log_error (Fehler_Kauf e) #
         (if telegram b then [Send_message (Kaufversuch_fehlgeschlagen e)] else [])))
   \<and> (fst (place_market_buy w ''AXSUSDT'' amt) = Inr order \<and>
        (\<not> truthy order \<or> (\<exists>s. subscript order ''status'' = Inr s \<and> s \<noteq> Str ''FILLED''))
      \<longrightarrow>
      execute_buy b w amt =
        (Inr Nothing, Invoke (Execute_buy amt) # snd (place_market_buy w ''AXSUSDT'' amt)))
   \<and> notifications (snd (place_market_buy w ''AXSUSDT'' amt)) = []
   \<and> (fst (execute_buy b w amt) = Inr r \<and> \<not> truthy r \<longrightarrow>
        r = Nothing \<and> invocations (snd (pipeline b w amt)) = [Execute_buy amt])"
proof (intro conjI impI)
  assume "fst (execute_buy_try b w amt) = Inl e"
  then show "execute_buy b w amt =
        (Inr Nothing,
         Invoke (Execute_buy amt) # snd (execute_buy_try b w amt) @
         Log_error (Fehler_Kauf e) #
         (if telegram b then [Send_message (Kaufversuch_fehlgeschlagen e)] else []))"
    by (simp add: execute_buy_def try_except_Inl notify_def)
next
  assume h: "fst (place_market_buy w ''AXSUSDT'' amt) = Inr order \<and>
        (\<not> truthy order \<or> (\<exists>s. subscript order ''status'' = Inr s \<and> s \<noteq> Str ''FILLED''))"
  then have "execute_buy_try b w amt = (Inr Nothing, snd (place_market_buy w ''AXSUSDT'' amt))"
    by (auto simp: execute_buy_try_def andthen_Inr sum_bind_def)
  then show "execute_buy b w amt =
        (Inr Nothing, Invoke (Execute_buy amt) # snd (place_market_buy w ''AXSUSDT'' amt))"
    by (simp add: execute_buy_def try_except_Inr)
next
  show "notifications (snd (place_market_buy w ''AXSUSDT'' amt)) = []"
    using mute_place_market_buy[of w "''AXSUSDT''" amt] by (simp add: mute_def)
next
  assume h: "fst (execute_buy b w amt) = Inr r \<and> \<not> truthy r"
  with execute_buy_result[of b w amt r] show "r = Nothing" by auto
  from h show "invocations (snd (pipeline b w amt)) = [Execute_buy amt]"
    by (simp add: invocations_pipeline stages_after_buy_falsy)
qed

theorem buy_failure_witness:
  "execute_buy demo_bot expired_order_world 50 =
     (Inr Nothing,
      [Invoke (Execute_buy 50),
       Call (Get_symbol_ticker ''AXSUSDT''), Call (Get_symbol_info ''AXSUSDT''),
       Call (Order_market_buy ''AXSUSDT'' (5 / 9))])"
  using buy_failure[where b = demo_bot and w = expired_order_world and amt = 50
      and order = expired_order]
  by (simp add: place_market_buy_expired expired_order_def)

end
